theory Spec2Isabelle
  imports Main
begin

section \<open>The session coordinator of NewAuthContext.tsx\<close>

text \<open>
  The React component \<open>AuthProvider\<close> of \<open>src/modules/auth/NewAuthContext.tsx\<close> holds one
  state record (\<open>useState\<close>) and offers two commands, \<open>loginWithCeramic\<close> and \<open>logout\<close>.
  Both are asynchronous functions that call third-party libraries (did-session, next-auth,
  wagmi) and the browser (\<open>localStorage\<close>, \<open>window.location\<close>).

  The embedding passes a world explicitly: the React state, the content of
  \<open>localStorage\<close> and the list of the calls made so far, oldest first. The libraries are not
  part of the repository; their behaviour during one call of a command is a parameter, the
  environment. A rejected promise or a thrown exception is the value \<open>Inl e\<close>, and an
  \<open>await\<close> on it leaves the function at once, as it does in JavaScript.
\<close>

subsection \<open>Data\<close>

text \<open>\<open>interface AuthUser\<close>, lines 11 to 13.\<close>

record AuthUser =
  address :: string

text \<open>
  The state of \<open>useState\<close>, lines 56 to 64. An optional field of TypeScript is an
  \<open>option\<close>; \<open>'s\<close> is the class \<open>DIDSession\<close> of the did-session library.
\<close>

record 's AuthState =
  isLoading :: bool
  isAuthenticated :: bool
  user :: "AuthUser option"
  didSession :: "'s option"

text \<open>
  \<open>new EthereumAuthProvider(provider, address)\<close>, line 114: the object built from the
  wallet provider (of type \<open>'p\<close>) and the address.
\<close>

datatype 'p EthereumAuthProvider = EthereumAuthProvider 'p string

text \<open>The second argument of \<open>DIDSession.authorize\<close>, lines 92 to 96. \<open>getCsrfToken\<close>
  resolves to \<open>string | undefined\<close> and the cast \<open>as string\<close> of line 89 changes nothing at
  run time, so the nonce is optional.\<close>

record AuthorizeOpts =
  resources :: "string list"
  nonce :: "string option"
  domain :: string

text \<open>A thrown value: a JavaScript \<open>Error\<close> with its message.\<close>

datatype error = Error string

text \<open>The status of the wallet connector, compared with \<open>'connected'\<close> at line 71.\<close>

datatype status = connecting | connected | disconnected

text \<open>
  The libraries and the browser, as they answer during one call of a command. Each of the
  fallible calls is made at most once in a call of a command, so one answer each is enough.
\<close>

record ('p, 's) env =
  fromSession :: "string \<Rightarrow> error + 's"
  hasSession :: "'s \<Rightarrow> bool"
  isExpired :: "'s \<Rightarrow> bool"
  serialize :: "'s \<Rightarrow> string"
  authorize :: "'p EthereumAuthProvider \<Rightarrow> AuthorizeOpts \<Rightarrow> error + 's"
  getCsrfToken :: "error + string option"
  nextAuthSignOut :: "error + unit"
  location_protocol :: string
  location_host :: string

text \<open>The calls a command makes, in the order it makes them.\<close>

datatype ('p, 's) event =
    GetItem string
  | SetItem string string
  | FromSession string
  | GetCsrfToken
  | Authorize "'p EthereumAuthProvider" AuthorizeOpts
  | WagmiDisconnect
  | NextAuthSignOut
  | SetState "'s AuthState"

record ('p, 's) world =
  state :: "'s AuthState"
  localStorage :: "string \<rightharpoonup> string"
  trace :: "('p, 's) event list"

subsection \<open>Primitive effects\<close>

definition emit :: "('p, 's) event \<Rightarrow> ('p, 's) world \<Rightarrow> ('p, 's) world" where
  "emit ev w = w\<lparr>trace := trace w @ [ev]\<rparr>"

text \<open>\<open>setState(s)\<close> replaces the whole record.\<close>

definition setState :: "'s AuthState \<Rightarrow> ('p, 's) world \<Rightarrow> ('p, 's) world" where
  "setState s w = emit (SetState s) (w\<lparr>state := s\<rparr>)"

text \<open>\<open>localStorage.getItem(k)\<close> gives the stored string or \<open>null\<close>.\<close>

definition getItem :: "string \<Rightarrow> ('p, 's) world \<Rightarrow> string option \<times> ('p, 's) world" where
  "getItem k w = (localStorage w k, emit (GetItem k) w)"

definition setItem :: "string \<Rightarrow> string \<Rightarrow> ('p, 's) world \<Rightarrow> ('p, 's) world" where
  "setItem k v w = emit (SetItem k v) (w\<lparr>localStorage := (localStorage w)(k \<mapsto> v)\<rparr>)"

text \<open>
  \<open>if (sessionStr)\<close> and \<open>!address\<close>: of a \<open>string | null | undefined\<close>, only a non-empty
  string is truthy.
\<close>

fun truthy :: "string option \<Rightarrow> bool" where
  "truthy None = False"
| "truthy (Some s) = (s \<noteq> [])"

subsection \<open>The component\<close>

text \<open>The initial state, lines 61 to 64: the two optional fields are not set.\<close>

definition initial_state :: "'s AuthState" where
  "initial_state = \<lparr>isLoading = True, isAuthenticated = False, user = None, didSession = None\<rparr>"

text \<open>The record committed at lines 105 to 110 and at lines 130 to 135.\<close>

definition unauthenticated :: "'s AuthState" where
  "unauthenticated =
     \<lparr>isLoading = False, isAuthenticated = False, user = None, didSession = None\<rparr>"

text \<open>The record committed at lines 118 to 123.\<close>

definition authenticated :: "string \<Rightarrow> 's \<Rightarrow> 's AuthState" where
  "authenticated a session =
     \<lparr>isLoading = False, isAuthenticated = True, user = Some \<lparr>address = a\<rparr>,
      didSession = Some session\<rparr>"

text \<open>
  Lines 81 to 86: read the stored string and, when it is truthy, deserialize it. The result
  is the value of the variable \<open>session\<close> at line 87.
\<close>

definition readSession ::
  "('p, 's) env \<Rightarrow> ('p, 's) world \<Rightarrow> (error + 's option) \<times> ('p, 's) world" where
  "readSession env w =
     (case getItem ''didsession'' w of
        (sessionStr, w1) \<Rightarrow>
          if truthy sessionStr then
            (case sessionStr of
               None \<Rightarrow> (Inr None, w1)
             | Some str \<Rightarrow>
                 (case fromSession env str of
                    Inl e \<Rightarrow> (Inl e, emit (FromSession str) w1)
                  | Inr s \<Rightarrow> (Inr (Some s), emit (FromSession str) w1)))
          else (Inr None, w1))"

text \<open>The object literal of lines 92 to 96, with the origin computed at line 90.\<close>

definition ceramicOpts :: "('p, 's) env \<Rightarrow> string option \<Rightarrow> AuthorizeOpts" where
  "ceramicOpts env n =
     \<lparr>resources = [''ceramic://*''], nonce = n,
      domain = location_protocol env @ ''//'' @ location_host env\<rparr>"

text \<open>Lines 89 to 97, the body of the \<open>if\<close> of line 88.\<close>

definition authorizeSession ::
  "('p, 's) env \<Rightarrow> 'p EthereumAuthProvider \<Rightarrow> ('p, 's) world \<Rightarrow> (error + 's) \<times> ('p, 's) world"
  where
  "authorizeSession env authProvider w =
     (case getCsrfToken env of
        Inl e \<Rightarrow> (Inl e, emit GetCsrfToken w)
      | Inr n \<Rightarrow>
          (let w2 = emit (Authorize authProvider (ceramicOpts env n)) (emit GetCsrfToken w)
           in case authorize env authProvider (ceramicOpts env n) of
                Inl e \<Rightarrow> (Inl e, w2)
              | Inr session \<Rightarrow> (Inr session, setItem ''didsession'' (serialize env session) w2)))"

text \<open>\<open>loadCeramicSession\<close>, lines 80 to 101.\<close>

definition loadCeramicSession ::
  "('p, 's) env \<Rightarrow> 'p EthereumAuthProvider \<Rightarrow> ('p, 's) world \<Rightarrow> (error + 's) \<times> ('p, 's) world"
  where
  "loadCeramicSession env authProvider w =
     (case readSession env w of
        (Inl e, w1) \<Rightarrow> (Inl e, w1)
      | (Inr None, w1) \<Rightarrow> authorizeSession env authProvider w1
      | (Inr (Some session), w1) \<Rightarrow>
          if hasSession env session \<and> isExpired env session
          then authorizeSession env authProvider w1
          else (Inr session, w1))"

text \<open>
  The async function of lines 103 to 123, as a function of the two variables it closes over:
  \<open>provider\<close> and \<open>addr\<close> are the values of \<open>provider\<close> (line 68) and \<open>address\<close>
  (line 66) in the render that created the function. They are not what the wallet holds
  when the function is called: \<open>useCallback\<close> with no dependencies (line 124) keeps the
  function of the first render, see \<open>callLoginWithCeramic\<close> below.
\<close>

definition loginWithCeramic ::
  "('p, 's) env \<Rightarrow> 'p option \<Rightarrow> string option \<Rightarrow> ('p, 's) world \<Rightarrow>
   (error + unit) \<times> ('p, 's) world" where
  "loginWithCeramic env provider addr w =
     (case provider of
        None \<Rightarrow> (Inr (), setState unauthenticated w)
      | Some p \<Rightarrow>
          if \<not> truthy addr then (Inr (), setState unauthenticated w)
          else
            (case addr of
               None \<Rightarrow> (Inr (), setState unauthenticated w)
             | Some a \<Rightarrow>
                 (case loadCeramicSession env (EthereumAuthProvider p a) w of
                    (Inl e, w1) \<Rightarrow> (Inl e, w1)
                  | (Inr session, w1) \<Rightarrow> (Inr (), setState (authenticated a session) w1))))"

text \<open>\<open>logout\<close>, lines 126 to 136.\<close>

definition logout :: "('p, 's) env \<Rightarrow> ('p, 's) world \<Rightarrow> (error + unit) \<times> ('p, 's) world" where
  "logout env w =
     (let w2 = emit NextAuthSignOut (emit WagmiDisconnect w)
      in case nextAuthSignOut env of
           Inl e \<Rightarrow> (Inl e, w2)
         | Inr u \<Rightarrow> (Inr (), setState unauthenticated w2))"

text \<open>
  The effect of lines 70 to 74, run when \<open>status\<close> changes: \<open>st\<close> is the new status,
  \<open>provider\<close> and \<open>addr\<close> are again the values the function \<open>loginWithCeramic\<close> closes
  over, not those of the wallet that has just connected.
\<close>

definition walletConnected ::
  "('p, 's) env \<Rightarrow> status \<Rightarrow> 'p option \<Rightarrow> string option \<Rightarrow> ('p, 's) world \<Rightarrow>
   (error + unit) \<times> ('p, 's) world" where
  "walletConnected env st provider addr w =
     (if st = connected then loginWithCeramic env provider addr w else (Inr (), w))"

text \<open>The component when it is mounted: the initial state, and nothing called yet.\<close>

definition mount :: "(string \<rightharpoonup> string) \<Rightarrow> ('p, 's) world" where
  "mount store = \<lparr>state = initial_state, localStorage = store, trace = []\<rparr>"

subsection \<open>Sequences of transitions\<close>

text \<open>
  A transition carries the answers of the libraries and the values the function closes
  over. \<open>run\<close> lets them differ from one transition to the next, which is more than the
  component does: its runs are the ones of \<open>perform_all\<close> below, where they are fixed.
\<close>

datatype ('p, 's) transition =
    LoginWithCeramic "('p, 's) env" "'p option" "string option"
  | Logout "('p, 's) env"
  | WalletConnected "('p, 's) env" status "'p option" "string option"

fun step :: "('p, 's) transition \<Rightarrow> ('p, 's) world \<Rightarrow> ('p, 's) world" where
  "step (LoginWithCeramic env provider addr) w = snd (loginWithCeramic env provider addr w)"
| "step (Logout env) w = snd (logout env w)"
| "step (WalletConnected env st provider addr) w = snd (walletConnected env st provider addr w)"

fun run :: "('p, 's) transition list \<Rightarrow> ('p, 's) world \<Rightarrow> ('p, 's) world" where
  "run [] w = w"
| "run (t # ts) w = run ts (step t w)"

text \<open>The states the calls of \<open>setState\<close> committed, oldest first.\<close>

fun commits :: "('p, 's) event list \<Rightarrow> 's AuthState list" where
  "commits [] = []"
| "commits (SetState s # evs) = s # commits evs"
| "commits (ev # evs) = commits evs"

subsection \<open>The memoised callbacks\<close>

text \<open>
  What the hooks of lines 66 to 68 return in one render of the component: the provider, the
  address and the status of the wallet.
\<close>

record 'p render =
  walletProvider :: "'p option"
  walletAddress :: "string option"
  walletStatus :: status

text \<open>
  The mounted component: its first render, its latest render and the world.
  \<open>useCallback(f, [])\<close> (lines 103 and 124, 126 and 136) hands every render the function made
  in the first render, so \<open>loginWithCeramic\<close> reads the provider and the address of the first
  render for the life of the component, whatever the latest render holds.
\<close>

record ('p, 's) component =
  firstRender :: "'p render"
  lastRender :: "'p render"
  cworld :: "('p, 's) world"

text \<open>A call of the \<open>loginWithCeramic\<close> that the component hands out.\<close>

definition callLoginWithCeramic ::
  "('p, 's) env \<Rightarrow> ('p, 's) component \<Rightarrow> (error + unit) \<times> ('p, 's) component" where
  "callLoginWithCeramic env c =
     (case loginWithCeramic env (walletProvider (firstRender c)) (walletAddress (firstRender c))
             (cworld c) of
        (r, w) \<Rightarrow> (r, c\<lparr>cworld := w\<rparr>))"

text \<open>A call of the \<open>logout\<close> that the component hands out.\<close>

definition callLogout ::
  "('p, 's) env \<Rightarrow> ('p, 's) component \<Rightarrow> (error + unit) \<times> ('p, 's) component" where
  "callLogout env c = (case logout env (cworld c) of (r, w) \<Rightarrow> (r, c\<lparr>cworld := w\<rparr>))"

text \<open>The effect of lines 70 to 74 in the latest render.\<close>

definition statusEffect ::
  "('p, 's) env \<Rightarrow> ('p, 's) component \<Rightarrow> (error + unit) \<times> ('p, 's) component" where
  "statusEffect env c =
     (if walletStatus (lastRender c) = connected then callLoginWithCeramic env c else (Inr (), c))"

text \<open>The first render, followed by its effect.\<close>

definition mountComponent ::
  "('p, 's) env \<Rightarrow> 'p render \<Rightarrow> (string \<rightharpoonup> string) \<Rightarrow> ('p, 's) component" where
  "mountComponent env r store =
     snd (statusEffect env \<lparr>firstRender = r, lastRender = r, cworld = mount store\<rparr>)"

text \<open>
  A later render with the values \<open>r\<close> of the hooks; the effect runs when the status is not
  the one of the render before (the dependency list \<open>[status]\<close> of line 74).
\<close>

definition rerender ::
  "('p, 's) env \<Rightarrow> 'p render \<Rightarrow> ('p, 's) component \<Rightarrow> ('p, 's) component" where
  "rerender env r c =
     (if walletStatus r \<noteq> walletStatus (lastRender c)
      then snd (statusEffect env (c\<lparr>lastRender := r\<rparr>))
      else c\<lparr>lastRender := r\<rparr>)"

text \<open>What can happen to the mounted component.\<close>

datatype ('p, 's) action =
    CallLoginWithCeramic "('p, 's) env"
  | CallLogout "('p, 's) env"
  | Rerender "('p, 's) env" "'p render"

fun perform :: "('p, 's) action \<Rightarrow> ('p, 's) component \<Rightarrow> ('p, 's) component" where
  "perform (CallLoginWithCeramic env) c = snd (callLoginWithCeramic env c)"
| "perform (CallLogout env) c = snd (callLogout env c)"
| "perform (Rerender env r) c = rerender env r c"

fun perform_all :: "('p, 's) action list \<Rightarrow> ('p, 's) component \<Rightarrow> ('p, 's) component" where
  "perform_all [] c = c"
| "perform_all (a # as) c = perform_all as (perform a c)"

subsection \<open>Reading a trace\<close>

text \<open>The calls a command made: the events added to the trace between two worlds.\<close>

definition calls_since :: "('p, 's) world \<Rightarrow> ('p, 's) world \<Rightarrow> ('p, 's) event list" where
  "calls_since w w' = drop (length (trace w)) (trace w')"

fun authorizeCalls ::
  "('p, 's) event list \<Rightarrow> ('p EthereumAuthProvider \<times> AuthorizeOpts) list" where
  "authorizeCalls [] = []"
| "authorizeCalls (Authorize authProvider opts # evs) = (authProvider, opts) # authorizeCalls evs"
| "authorizeCalls (ev # evs) = authorizeCalls evs"

fun storageWrites :: "('p, 's) event list \<Rightarrow> (string \<times> string) list" where
  "storageWrites [] = []"
| "storageWrites (SetItem k v # evs) = (k, v) # storageWrites evs"
| "storageWrites (ev # evs) = storageWrites evs"

text \<open>
  The error with which a call of a library was answered, if it was: \<open>None\<close> for a call that
  succeeded and for the calls that cannot fail in this model.
\<close>

fun rejection :: "('p, 's) env \<Rightarrow> ('p, 's) event \<Rightarrow> error option" where
  "rejection env (FromSession str) =
     (case fromSession env str of Inl e \<Rightarrow> Some e | Inr s \<Rightarrow> None)"
| "rejection env GetCsrfToken =
     (case getCsrfToken env of Inl e \<Rightarrow> Some e | Inr n \<Rightarrow> None)"
| "rejection env (Authorize authProvider opts) =
     (case authorize env authProvider opts of Inl e \<Rightarrow> Some e | Inr s \<Rightarrow> None)"
| "rejection env NextAuthSignOut =
     (case nextAuthSignOut env of Inl e \<Rightarrow> Some e | Inr u \<Rightarrow> None)"
| "rejection env ev = None"

subsection \<open>A sample environment\<close>

text \<open>
  For the examples, a session is a string: it is serialized as itself, the stored string
  \<open>garbage\<close> does not deserialize, and the session \<open>expired\<close> is the one that has expired.
  The answers to the nonce fetch, the authorization and the sign-out are arguments.
\<close>

definition sample_env ::
  "error + string option \<Rightarrow> error + string \<Rightarrow> error + unit \<Rightarrow> (string, string) env" where
  "sample_env csrf auth out =
     \<lparr>fromSession =
        (\<lambda>str. if str = ''garbage'' then Inl (Error ''invalid session'') else Inr str),
      hasSession = (\<lambda>s. True),
      isExpired = (\<lambda>s. s = ''expired''),
      serialize = (\<lambda>s. s),
      authorize = (\<lambda>authProvider opts. auth),
      getCsrfToken = csrf,
      nextAuthSignOut = out,
      location_protocol = ''https:'',
      location_host = ''app.sigle.io''\<rparr>"

definition all_ok :: "(string, string) env" where
  "all_ok = sample_env (Inr (Some ''nonce-1'')) (Inr ''session-1'') (Inr ())"

text \<open>The world after a first login with the address \<open>0xABC\<close> on an empty storage.\<close>

definition signed_in :: "(string, string) world" where
  "signed_in =
     run [LoginWithCeramic all_ok (Some ''metamask'') (Some ''0xABC'')] (mount Map.empty)"

text \<open>A wallet that holds the address \<open>0xABC\<close>, and one that holds none.\<close>

definition wallet_connected :: "string render" where
  "wallet_connected =
     \<lparr>walletProvider = Some ''metamask'', walletAddress = Some ''0xABC'',
      walletStatus = connected\<rparr>"

definition wallet_disconnected :: "string render" where
  "wallet_disconnected =
     \<lparr>walletProvider = Some ''metamask'', walletAddress = None, walletStatus = disconnected\<rparr>"

text \<open>
  The component in its first render, with the wallet connected and the given storage, before
  the effect has run.
\<close>

definition first_render_connected :: "(string \<rightharpoonup> string) \<Rightarrow> (string, string) component" where
  "first_render_connected store =
     \<lparr>firstRender = wallet_connected, lastRender = wallet_connected, cworld = mount store\<rparr>"

text \<open>
  The component mounted before the wallet is connected, with a valid record in the storage;
  then the wallet connects.
\<close>

definition late_connect :: "(string, string) component" where
  "late_connect =
     rerender all_ok wallet_connected
       (mountComponent all_ok wallet_disconnected [''didsession'' \<mapsto> ''session-0''])"

text \<open>
  The component mounted with the wallet connected, on an empty storage; then the wallet is
  disconnected.
\<close>

definition disconnected_mid_flow :: "(string, string) component" where
  "disconnected_mid_flow =
     rerender all_ok wallet_disconnected (mountComponent all_ok wallet_connected Map.empty)"

subsection \<open>Committed states\<close>

text \<open>
  A state in which the login attempt is over and an authenticated user is known.
\<close>

definition settled :: "'s AuthState \<Rightarrow> bool" where
  "settled s \<longleftrightarrow> \<not> isLoading s \<and> (isAuthenticated s \<longrightarrow> user s \<noteq> None)"

text \<open>
  From \<open>w\<close> to \<open>w'\<close> the trace only grew, every state committed on the way is settled, and
  the state of \<open>w'\<close> is that of \<open>w\<close> or one of the states committed on the way.
\<close>

definition commits_well :: "('p, 's) world \<Rightarrow> ('p, 's) world \<Rightarrow> bool" where
  "commits_well w w' \<longleftrightarrow>
     (\<exists>evs. trace w' = trace w @ evs \<and> (\<forall>s \<in> set (commits evs). settled s)
        \<and> (state w' = state w \<or> state w' \<in> set (commits evs)))"

section \<open>The paths through the commands\<close>

lemmas effect_defs = emit_def setState_def getItem_def setItem_def

lemmas login_defs = loginWithCeramic_def loadCeramicSession_def readSession_def
  authorizeSession_def ceramicOpts_def

lemmas sample_defs = all_ok_def sample_env_def mount_def

lemma commits_append: "commits (xs @ ys) = commits xs @ commits ys"
  by (induction xs rule: commits.induct) simp_all

lemma login_unmet:
  "provider = None \<or> \<not> truthy addr \<Longrightarrow>
   loginWithCeramic env provider addr w = (Inr (), setState unauthenticated w)"
  by (auto simp: loginWithCeramic_def split: option.splits)

lemma login_present:
  "a \<noteq> [] \<Longrightarrow>
   loginWithCeramic env (Some p) (Some a) w =
     (case loadCeramicSession env (EthereumAuthProvider p a) w of
        (Inl e, w1) \<Rightarrow> (Inl e, w1)
      | (Inr session, w1) \<Rightarrow> (Inr (), setState (authenticated a session) w1))"
  by (simp add: loginWithCeramic_def)

lemma logout_ok:
  "nextAuthSignOut env = Inr u \<Longrightarrow>
   logout env w = (Inr (), setState unauthenticated (emit NextAuthSignOut (emit WagmiDisconnect w)))"
  by (simp add: logout_def)

lemma logout_rejected:
  "nextAuthSignOut env = Inl e \<Longrightarrow>
   logout env w = (Inl e, emit NextAuthSignOut (emit WagmiDisconnect w))"
  by (simp add: logout_def)

lemma authorizeSession_nonce_rejected:
  "getCsrfToken env = Inl e \<Longrightarrow> authorizeSession env ap w = (Inl e, emit GetCsrfToken w)"
  by (simp add: authorizeSession_def)

lemma authorizeSession_rejected:
  "getCsrfToken env = Inr n \<Longrightarrow> authorize env ap (ceramicOpts env n) = Inl e \<Longrightarrow>
   authorizeSession env ap w =
     (Inl e, emit (Authorize ap (ceramicOpts env n)) (emit GetCsrfToken w))"
  by (simp add: authorizeSession_def)

lemma authorizeSession_ok:
  "getCsrfToken env = Inr n \<Longrightarrow> authorize env ap (ceramicOpts env n) = Inr s \<Longrightarrow>
   authorizeSession env ap w =
     (Inr s, setItem ''didsession'' (serialize env s)
               (emit (Authorize ap (ceramicOpts env n)) (emit GetCsrfToken w)))"
  by (simp add: authorizeSession_def)

lemma authorizeSession_cases:
  obtains (nonce_rejected) e where "getCsrfToken env = Inl e"
      "\<And>w. authorizeSession env ap w = (Inl e, emit GetCsrfToken w)"
  | (authorize_rejected) n e where "getCsrfToken env = Inr n"
      "authorize env ap (ceramicOpts env n) = Inl e"
      "\<And>w. authorizeSession env ap w =
         (Inl e, emit (Authorize ap (ceramicOpts env n)) (emit GetCsrfToken w))"
  | (authorized) n s where "getCsrfToken env = Inr n"
      "authorize env ap (ceramicOpts env n) = Inr s"
      "\<And>w. authorizeSession env ap w =
         (Inr s, setItem ''didsession'' (serialize env s)
                   (emit (Authorize ap (ceramicOpts env n)) (emit GetCsrfToken w)))"
proof (cases "getCsrfToken env")
  case (Inl e)
  then show ?thesis
    by (intro nonce_rejected [of e]) (simp_all add: authorizeSession_nonce_rejected)
next
  case n: (Inr n)
  show ?thesis
  proof (cases "authorize env ap (ceramicOpts env n)")
    case (Inl e)
    with n show ?thesis
      by (intro authorize_rejected [of n e]) (simp_all add: authorizeSession_rejected)
  next
    case (Inr s)
    with n show ?thesis
      by (intro authorized [of n s]) (simp_all add: authorizeSession_ok)
  qed
qed

lemma readSession_absent:
  "\<not> truthy (localStorage w ''didsession'') \<Longrightarrow>
   readSession env w = (Inr None, emit (GetItem ''didsession'') w)"
  by (simp add: readSession_def getItem_def)

lemma readSession_present:
  "localStorage w ''didsession'' = Some str \<Longrightarrow> str \<noteq> [] \<Longrightarrow>
   readSession env w =
     (case fromSession env str of Inl e \<Rightarrow> Inl e | Inr s \<Rightarrow> Inr (Some s),
      emit (FromSession str) (emit (GetItem ''didsession'') w))"
  by (simp add: readSession_def getItem_def split: sum.splits)

lemma load_absent:
  "\<not> truthy (localStorage w ''didsession'') \<Longrightarrow>
   loadCeramicSession env ap w = authorizeSession env ap (emit (GetItem ''didsession'') w)"
  by (simp add: loadCeramicSession_def readSession_absent)

lemma load_deserialize_rejected:
  "localStorage w ''didsession'' = Some str \<Longrightarrow> str \<noteq> [] \<Longrightarrow> fromSession env str = Inl e \<Longrightarrow>
   loadCeramicSession env ap w =
     (Inl e, emit (FromSession str) (emit (GetItem ''didsession'') w))"
  by (simp add: loadCeramicSession_def readSession_present)

lemma load_expired:
  "localStorage w ''didsession'' = Some str \<Longrightarrow> str \<noteq> [] \<Longrightarrow> fromSession env str = Inr s \<Longrightarrow>
   hasSession env s \<Longrightarrow> isExpired env s \<Longrightarrow>
   loadCeramicSession env ap w =
     authorizeSession env ap (emit (FromSession str) (emit (GetItem ''didsession'') w))"
  by (simp add: loadCeramicSession_def readSession_present)

lemma load_reuse:
  "localStorage w ''didsession'' = Some str \<Longrightarrow> str \<noteq> [] \<Longrightarrow> fromSession env str = Inr s \<Longrightarrow>
   \<not> (hasSession env s \<and> isExpired env s) \<Longrightarrow>
   loadCeramicSession env ap w =
     (Inr s, emit (FromSession str) (emit (GetItem ''didsession'') w))"
  by (auto simp: loadCeramicSession_def readSession_present)

lemma login_reuse:
  assumes "a \<noteq> []"
    and "localStorage w ''didsession'' = Some str" and "str \<noteq> []"
    and "fromSession env str = Inr s" and "\<not> isExpired env s"
  shows "loginWithCeramic env (Some p) (Some a) w =
      (Inr (), setState (authenticated a s)
                 (emit (FromSession str) (emit (GetItem ''didsession'') w)))"
proof -
  from assms have "loadCeramicSession env (EthereumAuthProvider p a) w =
      (Inr s, emit (FromSession str) (emit (GetItem ''didsession'') w))"
    by (simp add: load_reuse)
  with \<open>a \<noteq> []\<close> show ?thesis
    by (simp add: login_present)
qed

lemma signed_in_state: "state signed_in = authenticated ''0xABC'' ''session-1''"
  by (simp add: signed_in_def login_defs effect_defs sample_defs)

lemma login_after_authorize:
  assumes "a \<noteq> []"
    and "loadCeramicSession env (EthereumAuthProvider p a) w =
           authorizeSession env (EthereumAuthProvider p a) w1"
    and "trace w1 = trace w @ pre" and "state w1 = state w"
    and "localStorage w1 = localStorage w"
    and "\<forall>x \<in> set pre. rejection env x = None"
    and "ev \<in> set (calls_since w (snd (loginWithCeramic env (Some p) (Some a) w)))"
    and "rejection env ev = Some e"
  shows "fst (loginWithCeramic env (Some p) (Some a) w) = Inl e
       \<and> state (snd (loginWithCeramic env (Some p) (Some a) w)) = state w
       \<and> commits (calls_since w (snd (loginWithCeramic env (Some p) (Some a) w))) = commits pre
       \<and> last (calls_since w (snd (loginWithCeramic env (Some p) (Some a) w))) = ev
       \<and> count_list (calls_since w (snd (loginWithCeramic env (Some p) (Some a) w))) ev =
           count_list pre ev + 1
       \<and> localStorage (snd (loginWithCeramic env (Some p) (Some a) w)) = localStorage w"
proof -
  let ?L = "loginWithCeramic env (Some p) (Some a) w"
  let ?ap = "EthereumAuthProvider p a"
  have pre_ev: "ev \<notin> set pre"
    using assms(6,8) by auto
  then have cnt: "count_list pre ev = 0"
    by (simp add: count_list_0_iff)
  show ?thesis
  proof (cases rule: authorizeSession_cases [of env ?ap])
    case (nonce_rejected e')
    with assms(1,2) have L: "?L = (Inl e', emit GetCsrfToken w1)"
      by (simp add: login_present)
    have calls: "calls_since w (snd ?L) = pre @ [GetCsrfToken]"
      by (simp add: L emit_def calls_since_def assms(3))
    from assms(7) pre_ev have "ev = GetCsrfToken"
      by (simp add: calls)
    with assms(8) nonce_rejected(1) have "e' = e"
      by simp
    with \<open>ev = GetCsrfToken\<close> cnt show ?thesis
      by (simp add: calls commits_append) (simp add: L emit_def assms(4,5))
  next
    case (authorize_rejected n e')
    with assms(1,2) have L: "?L =
        (Inl e', emit (Authorize ?ap (ceramicOpts env n)) (emit GetCsrfToken w1))"
      by (simp add: login_present)
    have calls: "calls_since w (snd ?L) = pre @ [GetCsrfToken, Authorize ?ap (ceramicOpts env n)]"
      by (simp add: L emit_def calls_since_def assms(3))
    from assms(7) pre_ev have "ev = GetCsrfToken \<or> ev = Authorize ?ap (ceramicOpts env n)"
      by (simp add: calls)
    with assms(8) authorize_rejected(1,2) have "ev = Authorize ?ap (ceramicOpts env n) \<and> e' = e"
      by auto
    with cnt show ?thesis
      by (simp add: calls commits_append) (simp add: L emit_def assms(4,5))
  next
    case (authorized n s)
    with assms(1,2) have L: "?L =
        (Inr (), setState (authenticated a s) (setItem ''didsession'' (serialize env s)
           (emit (Authorize ?ap (ceramicOpts env n)) (emit GetCsrfToken w1))))"
      by (simp add: login_present)
    have calls: "calls_since w (snd ?L) =
        pre @ [GetCsrfToken, Authorize ?ap (ceramicOpts env n),
               SetItem ''didsession'' (serialize env s), SetState (authenticated a s)]"
      by (simp add: L effect_defs calls_since_def assms(3))
    from assms(7) pre_ev have "ev \<in> {GetCsrfToken, Authorize ?ap (ceramicOpts env n),
               SetItem ''didsession'' (serialize env s), SetState (authenticated a s)}"
      by (simp add: calls)
    with assms(8) authorized(1,2) have False
      by auto
    then show ?thesis ..
  qed
qed


lemmas component_defs = callLoginWithCeramic_def callLogout_def statusEffect_def
  mountComponent_def rerender_def wallet_connected_def wallet_disconnected_def
  first_render_connected_def late_connect_def disconnected_mid_flow_def


lemma callLogin_world:
  "cworld (snd (callLoginWithCeramic env c)) =
     snd (loginWithCeramic env (walletProvider (firstRender c)) (walletAddress (firstRender c))
            (cworld c))"
  "fst (callLoginWithCeramic env c) =
     fst (loginWithCeramic env (walletProvider (firstRender c)) (walletAddress (firstRender c))
            (cworld c))"
  "firstRender (snd (callLoginWithCeramic env c)) = firstRender c"
  "lastRender (snd (callLoginWithCeramic env c)) = lastRender c"
  by (simp_all add: callLoginWithCeramic_def split: prod.splits)

lemma callLogout_world:
  "cworld (snd (callLogout env c)) = snd (logout env (cworld c))"
  "firstRender (snd (callLogout env c)) = firstRender c"
  by (simp_all add: callLogout_def split: prod.splits)

lemma authorizeCalls_append:
  "authorizeCalls (xs @ ys) = authorizeCalls xs @ authorizeCalls ys"
  by (induction xs rule: authorizeCalls.induct) simp_all

lemma storageWrites_append:
  "storageWrites (xs @ ys) = storageWrites xs @ storageWrites ys"
  by (induction xs rule: storageWrites.induct) simp_all

lemma login_authorize_paths:
  assumes "a \<noteq> []"
    and "localStorage w ''didsession'' = None
       \<or> (\<exists>str s0. localStorage w ''didsession'' = Some str \<and> fromSession env str = Inr s0
             \<and> hasSession env s0 \<and> isExpired env s0)"
  obtains pre where "count_list pre GetCsrfToken = 0" "authorizeCalls pre = []"
    "storageWrites pre = []"
    "loginWithCeramic env (Some p) (Some a) w =
       (case authorizeSession env (EthereumAuthProvider p a) (w\<lparr>trace := trace w @ pre\<rparr>) of
          (Inl e, w1) \<Rightarrow> (Inl e, w1)
        | (Inr session, w1) \<Rightarrow> (Inr (), setState (authenticated a session) w1))"
proof -
  let ?ap = "EthereumAuthProvider p a"
  consider (absent) "\<not> truthy (localStorage w ''didsession'')"
    | (expired) str s0 where "localStorage w ''didsession'' = Some str" "str \<noteq> []"
        "fromSession env str = Inr s0" "hasSession env s0" "isExpired env s0"
    using assms(2) by (cases "localStorage w ''didsession''") auto
  then show ?thesis
  proof cases
    case absent
    then have "loadCeramicSession env ?ap w =
        authorizeSession env ?ap (w\<lparr>trace := trace w @ [GetItem ''didsession'']\<rparr>)"
      by (simp add: load_absent emit_def)
    with assms(1) show ?thesis
      by (intro that [of "[GetItem ''didsession'']"]) (simp_all add: login_present)
  next
    case expired
    then have "loadCeramicSession env ?ap w =
        authorizeSession env ?ap
          (w\<lparr>trace := trace w @ [GetItem ''didsession'', FromSession str]\<rparr>)"
      by (simp add: load_expired emit_def)
    with assms(1) show ?thesis
      by (intro that [of "[GetItem ''didsession'', FromSession str]"])
        (simp_all add: login_present)
  qed
qed

section \<open>What a sequence of transitions commits\<close>

lemma logout_storage: "localStorage (snd (logout env w)) = localStorage w"
  by (cases "nextAuthSignOut env") (simp_all add: logout_def effect_defs)

lemma logout_calls:
  "calls_since w (snd (logout env w)) =
     (case nextAuthSignOut env of
        Inl e \<Rightarrow> [WagmiDisconnect, NextAuthSignOut]
      | Inr u \<Rightarrow> [WagmiDisconnect, NextAuthSignOut, SetState unauthenticated])"
  by (cases "nextAuthSignOut env") (simp_all add: logout_def effect_defs calls_since_def)

lemma settled_unauthenticated: "settled unauthenticated"
  by (simp add: settled_def unauthenticated_def)

lemma settled_authenticated: "settled (authenticated a s)"
  by (simp add: settled_def authenticated_def)

lemma commits_well_refl: "commits_well w w"
  by (simp add: commits_well_def)

lemma commits_well_trans:
  assumes "commits_well w w'" and "commits_well w' w''"
  shows "commits_well w w''"
proof -
  from assms(1) obtain evs where 1: "trace w' = trace w @ evs"
    "\<forall>s \<in> set (commits evs). settled s" "state w' = state w \<or> state w' \<in> set (commits evs)"
    by (auto simp: commits_well_def)
  from assms(2) obtain evs' where 2: "trace w'' = trace w' @ evs'"
    "\<forall>s \<in> set (commits evs'). settled s" "state w'' = state w' \<or> state w'' \<in> set (commits evs')"
    by (auto simp: commits_well_def)
  from 1 2 have "trace w'' = trace w @ (evs @ evs')"
    "\<forall>s \<in> set (commits (evs @ evs')). settled s"
    "state w'' = state w \<or> state w'' \<in> set (commits (evs @ evs'))"
    by (auto simp: commits_append)
  then show ?thesis
    unfolding commits_well_def by blast
qed

lemma commits_well_setState: "settled s \<Longrightarrow> commits_well w (setState s w)"
  by (simp add: commits_well_def effect_defs)

lemma quiet_commits_well:
  "trace w' = trace w @ evs \<Longrightarrow> commits evs = [] \<Longrightarrow> state w' = state w \<Longrightarrow> commits_well w w'"
  by (auto simp: commits_well_def)

lemma authorizeSession_quiet:
  "\<exists>evs. trace (snd (authorizeSession env ap w)) = trace w @ evs \<and> commits evs = []
     \<and> state (snd (authorizeSession env ap w)) = state w"
  by (cases rule: authorizeSession_cases [of env ap]) (simp_all add: effect_defs)

lemma readSession_quiet:
  "\<exists>evs. trace (snd (readSession env w)) = trace w @ evs \<and> commits evs = []
     \<and> state (snd (readSession env w)) = state w"
  by (simp add: readSession_def effect_defs split: option.splits sum.splits)

lemma loadCeramicSession_quiet:
  "\<exists>evs. trace (snd (loadCeramicSession env ap w)) = trace w @ evs \<and> commits evs = []
     \<and> state (snd (loadCeramicSession env ap w)) = state w"
proof -
  obtain r w1 where rs: "readSession env w = (r, w1)"
    by (cases "readSession env w")
  with readSession_quiet [of env w] obtain evs where 1: "trace w1 = trace w @ evs"
    "commits evs = []" "state w1 = state w"
    by auto
  from authorizeSession_quiet [of env ap w1] obtain evs' where
    2: "trace (snd (authorizeSession env ap w1)) = trace w1 @ evs'" "commits evs' = []"
      "state (snd (authorizeSession env ap w1)) = state w1"
    by auto
  have "loadCeramicSession env ap w = authorizeSession env ap w1
      \<or> snd (loadCeramicSession env ap w) = w1"
    using rs by (simp add: loadCeramicSession_def split: sum.splits option.splits)
  then show ?thesis
  proof
    assume "loadCeramicSession env ap w = authorizeSession env ap w1"
    with 1 2 have "trace (snd (loadCeramicSession env ap w)) = trace w @ (evs @ evs')"
      "commits (evs @ evs') = []" "state (snd (loadCeramicSession env ap w)) = state w"
      by (simp_all add: commits_append)
    then show ?thesis by blast
  next
    assume "snd (loadCeramicSession env ap w) = w1"
    with 1 show ?thesis by auto
  qed
qed

lemma login_commits_well: "commits_well w (snd (loginWithCeramic env provider addr w))"
proof (cases "provider = None \<or> \<not> truthy addr")
  case True
  then show ?thesis
    by (simp add: login_unmet commits_well_setState settled_unauthenticated)
next
  case False
  then obtain p a where pa: "provider = Some p" "addr = Some a" "a \<noteq> []"
    by (cases provider; cases addr) auto
  let ?ap = "EthereumAuthProvider p a"
  obtain r w1 where load: "loadCeramicSession env ?ap w = (r, w1)"
    by (cases "loadCeramicSession env ?ap w")
  with loadCeramicSession_quiet [of env ?ap w] have quiet: "commits_well w w1"
    by (auto intro: quiet_commits_well)
  show ?thesis
  proof (cases r)
    case (Inl e)
    with pa load quiet show ?thesis
      by (simp add: login_present)
  next
    case (Inr session)
    with pa load have "snd (loginWithCeramic env provider addr w) =
        setState (authenticated a session) w1"
      by (simp add: login_present)
    with quiet show ?thesis
      using commits_well_trans commits_well_setState settled_authenticated by metis
  qed
qed

lemma logout_commits_well: "commits_well w (snd (logout env w))"
proof -
  have quiet: "commits_well w (emit NextAuthSignOut (emit WagmiDisconnect w))"
    by (rule quiet_commits_well [of _ _ "[WagmiDisconnect, NextAuthSignOut]"])
      (simp_all add: emit_def)
  show ?thesis
  proof (cases "nextAuthSignOut env")
    case (Inl e)
    with quiet show ?thesis
      by (simp add: logout_rejected)
  next
    case (Inr u)
    then have "snd (logout env w) =
        setState unauthenticated (emit NextAuthSignOut (emit WagmiDisconnect w))"
      by (simp add: logout_ok)
    with quiet show ?thesis
      using commits_well_trans commits_well_setState settled_unauthenticated by metis
  qed
qed

lemma step_commits_well: "commits_well w (step t w)"
  by (cases t)
    (simp_all add: login_commits_well logout_commits_well walletConnected_def commits_well_refl)

lemma run_commits_well: "commits_well w (run ts w)"
proof (induction ts arbitrary: w)
  case Nil
  show ?case by (simp add: commits_well_refl)
next
  case (Cons t ts)
  have "commits_well w (step t w)" by (rule step_commits_well)
  moreover have "commits_well (step t w) (run ts (step t w))" by (rule Cons.IH)
  ultimately show ?case
    by (simp add: commits_well_trans [of w "step t w"])
qed

lemma run_append: "run (ts @ ts') w = run ts' (run ts w)"
  by (induction ts arbitrary: w) simp_all

lemma run_from_mount:
  "(\<forall>s \<in> set (commits (trace (run ts (mount store)))). settled s)
   \<and> (state (run ts (mount store)) = initial_state
        \<or> state (run ts (mount store)) \<in> set (commits (trace (run ts (mount store)))))"
  using run_commits_well [of "mount store" ts]
  by (auto simp: commits_well_def mount_def)

text \<open>
  Every run of the component is a run of transitions, so what holds after every sequence of
  transitions holds of the component.
\<close>

lemma perform_is_step:
  "firstRender (perform a c) = firstRender c
   \<and> (\<exists>ts. cworld (perform a c) = run ts (cworld c))"
proof (cases a)
  case (CallLoginWithCeramic env)
  have "cworld (perform a c) =
      run [LoginWithCeramic env (walletProvider (firstRender c)) (walletAddress (firstRender c))]
        (cworld c)"
    by (simp add: CallLoginWithCeramic callLogin_world)
  moreover have "firstRender (perform a c) = firstRender c"
    by (simp add: CallLoginWithCeramic callLogin_world)
  ultimately show ?thesis by blast
next
  case (CallLogout env)
  have "cworld (perform a c) = run [Logout env] (cworld c)"
    by (simp add: CallLogout callLogout_world)
  moreover have "firstRender (perform a c) = firstRender c"
    by (simp add: CallLogout callLogout_world)
  ultimately show ?thesis by blast
next
  case (Rerender env r)
  have "cworld (perform a c) =
      run [WalletConnected env
             (if walletStatus r \<noteq> walletStatus (lastRender c) then walletStatus r
              else disconnected)
             (walletProvider (firstRender c)) (walletAddress (firstRender c))] (cworld c)"
    by (simp add: Rerender rerender_def statusEffect_def walletConnected_def callLogin_world)
  moreover have "firstRender (perform a c) = firstRender c"
    by (simp add: Rerender rerender_def statusEffect_def callLogin_world)
  ultimately show ?thesis by blast
qed

lemma perform_all_is_run:
  "firstRender (perform_all as c) = firstRender c
   \<and> (\<exists>ts. cworld (perform_all as c) = run ts (cworld c))"
proof (induction as arbitrary: c)
  case Nil
  have "cworld c = run [] (cworld c)" by simp
  then show ?case by (metis perform_all.simps(1))
next
  case (Cons a as)
  from perform_is_step [of a c] obtain ts where
    1: "firstRender (perform a c) = firstRender c" "cworld (perform a c) = run ts (cworld c)"
    by blast
  from Cons.IH [of "perform a c"] obtain ts' where
    2: "firstRender (perform_all as (perform a c)) = firstRender (perform a c)"
      "cworld (perform_all as (perform a c)) = run ts' (cworld (perform a c))"
    by blast
  from 1 2 have "cworld (perform_all (a # as) c) = run (ts @ ts') (cworld c)"
    by (simp add: run_append)
  with 1 2 show ?case by auto
qed

lemma mountComponent_is_run:
  "firstRender (mountComponent env r store) = r
   \<and> (\<exists>ts. cworld (mountComponent env r store) = run ts (mount store))"
proof -
  have "cworld (mountComponent env r store) =
      run [WalletConnected env (walletStatus r) (walletProvider r) (walletAddress r)]
        (mount store)"
    by (simp add: mountComponent_def statusEffect_def walletConnected_def callLogin_world)
  moreover have "firstRender (mountComponent env r store) = r"
    by (simp add: mountComponent_def statusEffect_def callLogin_world)
  ultimately show ?thesis by blast
qed

lemma component_runs_are_runs:
  "\<exists>ts. cworld (perform_all as (mountComponent env r store)) = run ts (mount store)"
proof -
  from mountComponent_is_run [of env r store] obtain ts where
    "cworld (mountComponent env r store) = run ts (mount store)" by blast
  moreover from perform_all_is_run [of as "mountComponent env r store"] obtain ts' where
    "cworld (perform_all as (mountComponent env r store)) =
       run ts' (cworld (mountComponent env r store))" by blast
  ultimately have "cworld (perform_all as (mountComponent env r store)) =
      run (ts @ ts') (mount store)"
    by (simp add: run_append)
  then show ?thesis ..
qed


section \<open>The initial state\<close>

text \<open>
  C8. Before any transition has committed, the state of the coordinator is
  \<open>isLoading = true\<close>, \<open>isAuthenticated = false\<close>, with neither \<open>user\<close> nor \<open>didSession\<close>:
  this is the state of the component as mounted, whatever the storage holds, and no state
  has been committed there.
\<close>

theorem initial_state_is_loading:
  "state (run [] (mount store)) =
     \<lparr>isLoading = True, isAuthenticated = False, user = None, didSession = None\<rparr>
   \<and> commits (trace (run [] (mount store))) = []"
  by (simp add: mount_def initial_state_def)

section \<open>Login\<close>

text \<open>
  C4 says that when the provider or the address is absent at a call of
  \<open>loginWithCeramic\<close>, the unauthenticated state is committed and the storage is not read.
  The component does otherwise where the first render held an address. Mounted with the
  wallet connected to \<open>0xABC\<close>, it logs in; the wallet is then disconnected, so that the
  address is absent; a call of \<open>loginWithCeramic\<close> now still reads the address of the first
  render, reads the storage, deserializes the record and commits the authenticated state
  for \<open>0xABC\<close>.
\<close>

theorem login_with_absent_address_reads_first_render:
  "walletAddress (lastRender disconnected_mid_flow) = None
   \<and> walletAddress (firstRender disconnected_mid_flow) = Some ''0xABC''
   \<and> fst (callLoginWithCeramic all_ok disconnected_mid_flow) = Inr ()
   \<and> calls_since (cworld disconnected_mid_flow)
        (cworld (snd (callLoginWithCeramic all_ok disconnected_mid_flow))) =
       [GetItem ''didsession'', FromSession ''session-1'',
        SetState (authenticated ''0xABC'' ''session-1'')]
   \<and> state (cworld (snd (callLoginWithCeramic all_ok disconnected_mid_flow))) =
       \<lparr>isLoading = False, isAuthenticated = True, user = Some \<lparr>address = ''0xABC''\<rparr>,
        didSession = Some ''session-1''\<rparr>"
  by (simp add: component_defs login_defs effect_defs sample_defs calls_since_def
      authenticated_def)

text \<open>
  C2 says that with the provider and the current address present and a stored record that
  has not expired, \<open>loginWithCeramic\<close> does not authorize and commits the authenticated
  state with the deserialized record. The component does otherwise where the first render
  held no address. Mounted before the wallet is connected, with a valid record in the
  storage, it sees the wallet connect to \<open>0xABC\<close>; the effect calls \<open>loginWithCeramic\<close>,
  which reads the absent address of the first render and commits the unauthenticated state
  without reading the storage, and so does every later call.
\<close>

theorem login_after_late_connect_ignores_record:
  "walletProvider (lastRender late_connect) = Some ''metamask''
   \<and> walletAddress (lastRender late_connect) = Some ''0xABC''
   \<and> walletAddress (firstRender late_connect) = None
   \<and> localStorage (cworld late_connect) ''didsession'' = Some ''session-0''
   \<and> fromSession all_ok ''session-0'' = Inr ''session-0''
   \<and> \<not> isExpired all_ok ''session-0''
   \<and> trace (cworld late_connect) = [SetState unauthenticated]
   \<and> fst (callLoginWithCeramic all_ok late_connect) = Inr ()
   \<and> calls_since (cworld late_connect) (cworld (snd (callLoginWithCeramic all_ok late_connect)))
       = [SetState unauthenticated]
   \<and> state (cworld (snd (callLoginWithCeramic all_ok late_connect))) =
       \<lparr>isLoading = False, isAuthenticated = False, user = None, didSession = None\<rparr>"
  by (simp add: component_defs login_defs effect_defs sample_defs calls_since_def
      unauthenticated_def)

text \<open>
  C1 as stated fails. The wallet is connected from the first render and there is no stored
  record: when the authorization is rejected (the user declines to sign), \<open>authorize\<close> is
  called but nothing is written to the storage; and when the nonce fetch itself is rejected,
  \<open>authorize\<close> is not called at all.
\<close>

theorem login_authorize_rejected_counterexample:
  "walletProvider (lastRender (first_render_connected Map.empty)) = Some ''metamask''
   \<and> walletAddress (lastRender (first_render_connected Map.empty)) = Some ''0xABC''
   \<and> localStorage (cworld (first_render_connected Map.empty)) ''didsession'' = None
   \<and> fst (callLoginWithCeramic
        (sample_env (Inr (Some ''nonce-1'')) (Inl (Error ''User rejected the request'')) (Inr ()))
        (first_render_connected Map.empty))
       = Inl (Error ''User rejected the request'')
   \<and> storageWrites (trace (cworld (snd (callLoginWithCeramic
        (sample_env (Inr (Some ''nonce-1'')) (Inl (Error ''User rejected the request'')) (Inr ()))
        (first_render_connected Map.empty))))) = []
   \<and> localStorage (cworld (snd (callLoginWithCeramic
        (sample_env (Inr (Some ''nonce-1'')) (Inl (Error ''User rejected the request'')) (Inr ()))
        (first_render_connected Map.empty)))) ''didsession'' = None
   \<and> authorizeCalls (trace (cworld (snd (callLoginWithCeramic
        (sample_env (Inl (Error ''Failed to fetch'')) (Inr ''session-1'') (Inr ()))
        (first_render_connected Map.empty))))) = []"
  by (simp add: component_defs login_defs effect_defs sample_defs)

text \<open>
  C1, amended. At a call of \<open>loginWithCeramic\<close> where the provider and a non-empty address
  are present and are the ones of the first render, and there is no stored record or one
  that deserializes to a session with \<open>hasSession\<close> and \<open>isExpired\<close>: the nonce is fetched
  exactly once; when that fetch succeeds, \<open>authorize\<close> is called exactly once, with the
  resources \<open>["ceramic://*"]\<close>, that nonce and the origin \<open>protocol//host\<close>; and when the
  authorization succeeds too, the serialized session is written under \<open>didsession\<close>, over
  whatever was there, and the command returns normally in the authenticated state.
\<close>

theorem login_authorizes_new_session:
  assumes "walletProvider (lastRender c) = Some p" and "walletAddress (lastRender c) = Some a"
    and "a \<noteq> []"
    and "walletProvider (firstRender c) = walletProvider (lastRender c)"
    and "walletAddress (firstRender c) = walletAddress (lastRender c)"
    and "localStorage (cworld c) ''didsession'' = None
       \<or> (\<exists>str s0. localStorage (cworld c) ''didsession'' = Some str
             \<and> fromSession env str = Inr s0 \<and> hasSession env s0 \<and> isExpired env s0)"
  shows "count_list (calls_since (cworld c) (cworld (snd (callLoginWithCeramic env c))))
           GetCsrfToken = 1
       \<and> (getCsrfToken env = Inr n \<longrightarrow>
            authorizeCalls (calls_since (cworld c) (cworld (snd (callLoginWithCeramic env c)))) =
              [(EthereumAuthProvider p a,
                \<lparr>resources = [''ceramic://*''], nonce = n,
                 domain = location_protocol env @ ''//'' @ location_host env\<rparr>)]
          \<and> (authorize env (EthereumAuthProvider p a) (ceramicOpts env n) = Inr s \<longrightarrow>
               storageWrites
                 (calls_since (cworld c) (cworld (snd (callLoginWithCeramic env c)))) =
                 [(''didsession'', serialize env s)]
             \<and> localStorage (cworld (snd (callLoginWithCeramic env c))) =
                 (localStorage (cworld c))(''didsession'' \<mapsto> serialize env s)
             \<and> fst (callLoginWithCeramic env c) = Inr ()
             \<and> state (cworld (snd (callLoginWithCeramic env c))) = authenticated a s))"
proof -
  let ?ap = "EthereumAuthProvider p a"
  let ?w = "cworld c"
  let ?L = "loginWithCeramic env (Some p) (Some a) ?w"
  have call: "cworld (snd (callLoginWithCeramic env c)) = snd ?L"
    "fst (callLoginWithCeramic env c) = fst ?L"
    using assms(1,2,4,5) by (simp_all add: callLogin_world)
  from assms(3,6) obtain pre where pre: "count_list pre GetCsrfToken = 0"
    "authorizeCalls pre = []" "storageWrites pre = []"
    and L: "?L = (case authorizeSession env ?ap (?w\<lparr>trace := trace ?w @ pre\<rparr>) of
          (Inl e, w1) \<Rightarrow> (Inl e, w1)
        | (Inr session, w1) \<Rightarrow> (Inr (), setState (authenticated a session) w1))"
    by (rule login_authorize_paths)
  show ?thesis
  proof (cases rule: authorizeSession_cases [of env ?ap])
    case (nonce_rejected e)
    then show ?thesis
      by (simp add: call L pre emit_def calls_since_def)
  next
    case (authorize_rejected n' e)
    then show ?thesis
      by (auto simp: call L pre emit_def calls_since_def authorizeCalls_append ceramicOpts_def)
  next
    case (authorized n' s')
    then show ?thesis
      by (auto simp: call L pre effect_defs calls_since_def authorizeCalls_append storageWrites_append
          ceramicOpts_def)
  qed
qed

theorem login_authorizes_new_session_witness:
  "walletProvider (lastRender (first_render_connected Map.empty)) = Some ''metamask''
   \<and> walletAddress (lastRender (first_render_connected Map.empty)) = Some ''0xABC''
   \<and> firstRender (first_render_connected Map.empty) =
       lastRender (first_render_connected Map.empty)
   \<and> localStorage (cworld (first_render_connected Map.empty)) ''didsession'' = None
   \<and> getCsrfToken all_ok = Inr (Some ''nonce-1'')
   \<and> authorize all_ok (EthereumAuthProvider ''metamask'' ''0xABC'')
        (ceramicOpts all_ok (Some ''nonce-1'')) = Inr ''session-1''
   \<and> count_list (calls_since (cworld (first_render_connected Map.empty))
        (cworld (snd (callLoginWithCeramic all_ok (first_render_connected Map.empty)))))
        GetCsrfToken = 1
   \<and> authorizeCalls (calls_since (cworld (first_render_connected Map.empty))
        (cworld (snd (callLoginWithCeramic all_ok (first_render_connected Map.empty))))) =
       [(EthereumAuthProvider ''metamask'' ''0xABC'',
         \<lparr>resources = [''ceramic://*''], nonce = Some ''nonce-1'',
          domain = ''https://app.sigle.io''\<rparr>)]
   \<and> localStorage
        (cworld (snd (callLoginWithCeramic all_ok (first_render_connected Map.empty))))
        ''didsession'' = Some ''session-1''
   \<and> localStorage (cworld (first_render_connected [''didsession'' \<mapsto> ''expired'']))
        ''didsession'' = Some ''expired''
   \<and> hasSession all_ok ''expired'' \<and> isExpired all_ok ''expired''
   \<and> localStorage
        (cworld (snd (callLoginWithCeramic all_ok
           (first_render_connected [''didsession'' \<mapsto> ''expired'']))))
        ''didsession'' = Some ''session-1''"
  using login_authorizes_new_session [of "first_render_connected Map.empty" "''metamask''"
      "''0xABC''" all_ok "Some ''nonce-1''" "''session-1''"]
    login_authorizes_new_session [of "first_render_connected [''didsession'' \<mapsto> ''expired'']"
      "''metamask''" "''0xABC''" all_ok "Some ''nonce-1''" "''session-1''"]
  by (simp add: first_render_connected_def wallet_connected_def sample_defs ceramicOpts_def)

text \<open>
  C5. A call of \<open>loginWithCeramic\<close> in which the deserialization of the stored record, the
  nonce fetch or the authorization is answered with an error \<open>e\<close> returns that same error
  \<open>e\<close>; the failed call is the last thing the command did and it was made once (nothing is
  retried); no state was committed, so the state is the one before the call, and the storage
  is unchanged too.
\<close>

theorem login_failure_propagates:
  assumes "ev \<in> set (calls_since w (snd (loginWithCeramic env provider addr w)))"
    and "rejection env ev = Some e"
  shows "fst (loginWithCeramic env provider addr w) = Inl e
       \<and> state (snd (loginWithCeramic env provider addr w)) = state w
       \<and> commits (calls_since w (snd (loginWithCeramic env provider addr w))) = []
       \<and> last (calls_since w (snd (loginWithCeramic env provider addr w))) = ev
       \<and> count_list (calls_since w (snd (loginWithCeramic env provider addr w))) ev = 1
       \<and> localStorage (snd (loginWithCeramic env provider addr w)) = localStorage w"
proof -
  let ?w1 = "emit (GetItem ''didsession'') w"
  consider (unmet) "provider = None \<or> \<not> truthy addr"
    | (present) p a where "provider = Some p" "addr = Some a" "a \<noteq> []"
    by (cases provider; cases addr) auto
  then show ?thesis
  proof cases
    case unmet
    then have "loginWithCeramic env provider addr w = (Inr (), setState unauthenticated w)"
      by (rule login_unmet)
    then have "calls_since w (snd (loginWithCeramic env provider addr w)) =
        [SetState unauthenticated]"
      by (simp add: effect_defs calls_since_def)
    with assms show ?thesis by auto
  next
    case present
    let ?ap = "EthereumAuthProvider p a"
    let ?L = "loginWithCeramic env (Some p) (Some a) w"
    have ev: "ev \<in> set (calls_since w (snd ?L))"
      using assms(1) present by simp
    have "fst ?L = Inl e \<and> state (snd ?L) = state w \<and> commits (calls_since w (snd ?L)) = []
        \<and> last (calls_since w (snd ?L)) = ev \<and> count_list (calls_since w (snd ?L)) ev = 1
        \<and> localStorage (snd ?L) = localStorage w"
    proof (cases "truthy (localStorage w ''didsession'')")
      case False
      then have "loadCeramicSession env ?ap w = authorizeSession env ?ap ?w1"
        by (rule load_absent)
      moreover have "count_list [GetItem ''didsession''] ev = 0"
        using assms(2) by auto
      moreover have "trace ?w1 = trace w @ [GetItem ''didsession'']" "state ?w1 = state w"
        "localStorage ?w1 = localStorage w"
        by (simp_all add: emit_def)
      moreover have "\<forall>x \<in> set [GetItem ''didsession'']. rejection env x = None"
        by simp
      ultimately show ?thesis
        using login_after_authorize [of a env p w ?w1 "[GetItem ''didsession'']" ev e]
          present(3) ev assms(2)
        by simp
    next
      case True
      then obtain str where str: "localStorage w ''didsession'' = Some str" "str \<noteq> []"
        by (cases "localStorage w ''didsession''") auto
      let ?w2 = "emit (FromSession str) ?w1"
      show ?thesis
      proof (cases "fromSession env str")
        case (Inl e')
        with str have "loadCeramicSession env ?ap w = (Inl e', ?w2)"
          by (simp add: load_deserialize_rejected)
        with present(3) have L: "?L = (Inl e', ?w2)"
          by (simp add: login_present)
        have calls: "calls_since w (snd ?L) = [GetItem ''didsession'', FromSession str]"
          by (simp add: L emit_def calls_since_def)
        from ev assms(2) have "ev = FromSession str"
          by (auto simp: calls)
        with assms(2) Inl have "e' = e"
          by simp
        with \<open>ev = FromSession str\<close> show ?thesis
          by (simp add: calls) (simp add: L emit_def)
      next
        case (Inr s)
        show ?thesis
        proof (cases "hasSession env s \<and> isExpired env s")
          case True
          with str Inr have "loadCeramicSession env ?ap w = authorizeSession env ?ap ?w2"
            by (simp add: load_expired)
          moreover have "count_list [GetItem ''didsession'', FromSession str] ev = 0"
            using assms(2) Inr by auto
          moreover have "trace ?w2 = trace w @ [GetItem ''didsession'', FromSession str]"
            "state ?w2 = state w" "localStorage ?w2 = localStorage w"
            by (simp_all add: emit_def)
          moreover have
            "\<forall>x \<in> set [GetItem ''didsession'', FromSession str]. rejection env x = None"
            using Inr by simp
          ultimately show ?thesis
            using login_after_authorize
              [of a env p w ?w2 "[GetItem ''didsession'', FromSession str]" ev e]
              present(3) ev assms(2)
            by simp
        next
          case False
          with str Inr have "loadCeramicSession env ?ap w = (Inr s, ?w2)"
            by (simp add: load_reuse)
          with present(3) have L: "?L = (Inr (), setState (authenticated a s) ?w2)"
            by (simp add: login_present)
          have "calls_since w (snd ?L) =
              [GetItem ''didsession'', FromSession str, SetState (authenticated a s)]"
            by (simp add: L effect_defs calls_since_def)
          with ev assms(2) Inr have False
            by auto
          then show ?thesis ..
        qed
      qed
    qed
    with present show ?thesis by simp
  qed
qed

theorem login_failure_propagates_witness:
  "FromSession ''garbage'' \<in> set (calls_since (mount [''didsession'' \<mapsto> ''garbage''])
       (snd (loginWithCeramic all_ok (Some ''metamask'') (Some ''0xABC'')
              (mount [''didsession'' \<mapsto> ''garbage'']))))
   \<and> rejection all_ok (FromSession ''garbage'') = Some (Error ''invalid session'')
   \<and> fst (loginWithCeramic all_ok (Some ''metamask'') (Some ''0xABC'')
              (mount [''didsession'' \<mapsto> ''garbage''])) = Inl (Error ''invalid session'')
   \<and> state (snd (loginWithCeramic all_ok (Some ''metamask'') (Some ''0xABC'')
              (mount [''didsession'' \<mapsto> ''garbage'']))) = initial_state"
  using login_failure_propagates [of "FromSession ''garbage''"
      "mount [''didsession'' \<mapsto> ''garbage'']" all_ok "Some ''metamask''" "Some ''0xABC''"
      "Error ''invalid session''"]
  by (simp add: login_defs effect_defs calls_since_def sample_defs)

section \<open>Logout\<close>

text \<open>
  C3 as stated fails: \<open>logout\<close> awaits the sign-out before it resets the
  state (lines 129 and 130), so a rejected sign-out leaves the function before \<open>setState\<close>.
  After a login, a logout whose sign-out is rejected returns the error and the state is still
  the authenticated one.
\<close>

theorem logout_signOut_rejected_counterexample:
  "nextAuthSignOut (sample_env (Inr None) (Inr ''session-1'') (Inl (Error ''Failed to fetch'')))
     = Inl (Error ''Failed to fetch'')
   \<and> fst (logout (sample_env (Inr None) (Inr ''session-1'') (Inl (Error ''Failed to fetch'')))
        signed_in) = Inl (Error ''Failed to fetch'')
   \<and> state (snd (logout (sample_env (Inr None) (Inr ''session-1'') (Inl (Error ''Failed to fetch'')))
        signed_in)) =
       \<lparr>isLoading = False, isAuthenticated = True, user = Some \<lparr>address = ''0xABC''\<rparr>,
        didSession = Some ''session-1''\<rparr>"
  by (simp add: logout_def signed_in_state authenticated_def effect_defs sample_env_def)

text \<open>
  C3, amended. For every prior state, when the sign-out call succeeds, \<open>logout\<close> returns
  normally and commits \<open>isLoading = false\<close>, \<open>isAuthenticated = false\<close> with neither
  \<open>user\<close> nor \<open>didSession\<close>; the commit comes after the wallet is disconnected and the
  sign-out has been awaited; and a second logout leaves the state as the first one made it.
\<close>

theorem logout_commits_after_signOut:
  assumes "nextAuthSignOut env = Inr ()"
  shows "fst (logout env w) = Inr ()
       \<and> state (snd (logout env w)) =
           \<lparr>isLoading = False, isAuthenticated = False, user = None, didSession = None\<rparr>
       \<and> calls_since w (snd (logout env w)) =
           [WagmiDisconnect, NextAuthSignOut, SetState unauthenticated]
       \<and> state (snd (logout env (snd (logout env w)))) = state (snd (logout env w))"
  using assms
  by (simp add: logout_ok effect_defs unauthenticated_def calls_since_def)

theorem logout_commits_after_signOut_witness:
  "nextAuthSignOut all_ok = Inr ()
   \<and> isAuthenticated (state signed_in)
   \<and> state (snd (logout all_ok signed_in)) = unauthenticated
   \<and> calls_since signed_in (snd (logout all_ok signed_in)) =
       [WagmiDisconnect, NextAuthSignOut, SetState unauthenticated]"
  using logout_commits_after_signOut [of all_ok signed_in]
  by (simp add: all_ok_def sample_env_def unauthenticated_def signed_in_state authenticated_def)

text \<open>
  C6. \<open>logout\<close> does not touch the storage: whether the sign-out succeeds or is rejected,
  the content of \<open>localStorage\<close> is what it was and no write was made. So a stored record
  that is non-empty and deserializes to a session that has not expired is used again by the
  next login, which commits it without calling \<open>authorize\<close>.
\<close>

theorem logout_keeps_persisted_session:
  "localStorage (snd (logout env w)) = localStorage w
   \<and> storageWrites (calls_since w (snd (logout env w))) = []
   \<and> (a \<noteq> [] \<and> localStorage w ''didsession'' = Some str \<and> str \<noteq> []
        \<and> fromSession env' str = Inr s \<and> \<not> isExpired env' s \<longrightarrow>
      fst (loginWithCeramic env' (Some p) (Some a) (snd (logout env w))) = Inr ()
      \<and> state (snd (loginWithCeramic env' (Some p) (Some a) (snd (logout env w)))) =
          authenticated a s
      \<and> authorizeCalls (calls_since (snd (logout env w))
           (snd (loginWithCeramic env' (Some p) (Some a) (snd (logout env w))))) = [])"
proof -
  have store: "localStorage (snd (logout env w)) = localStorage w"
    by (rule logout_storage)
  have writes: "storageWrites (calls_since w (snd (logout env w))) = []"
    by (cases "nextAuthSignOut env") (simp_all add: logout_calls)
  have again: "fst (loginWithCeramic env' (Some p) (Some a) (snd (logout env w))) = Inr ()
      \<and> state (snd (loginWithCeramic env' (Some p) (Some a) (snd (logout env w)))) =
          authenticated a s
      \<and> authorizeCalls (calls_since (snd (logout env w))
           (snd (loginWithCeramic env' (Some p) (Some a) (snd (logout env w))))) = []"
    if "a \<noteq> []" "localStorage w ''didsession'' = Some str" "str \<noteq> []"
      "fromSession env' str = Inr s" "\<not> isExpired env' s"
  proof -
    from that store have "loginWithCeramic env' (Some p) (Some a) (snd (logout env w)) =
        (Inr (), setState (authenticated a s)
           (emit (FromSession str) (emit (GetItem ''didsession'') (snd (logout env w)))))"
      by (intro login_reuse) simp_all
    then show ?thesis
      by (simp add: effect_defs calls_since_def)
  qed
  from store writes again show ?thesis by blast
qed

theorem logout_keeps_persisted_session_witness:
  "localStorage signed_in ''didsession'' = Some ''session-1''
   \<and> localStorage (snd (logout all_ok signed_in)) ''didsession'' = Some ''session-1''
   \<and> \<not> isExpired all_ok ''session-1''
   \<and> state (snd (logout all_ok signed_in)) = unauthenticated
   \<and> state (snd (loginWithCeramic all_ok (Some ''metamask'') (Some ''0xABC'')
               (snd (logout all_ok signed_in)))) = authenticated ''0xABC'' ''session-1''
   \<and> authorizeCalls (calls_since (snd (logout all_ok signed_in))
        (snd (loginWithCeramic all_ok (Some ''metamask'') (Some ''0xABC'')
               (snd (logout all_ok signed_in))))) = []"
proof -
  have stored: "localStorage signed_in ''didsession'' = Some ''session-1''"
    by (simp add: signed_in_def login_defs effect_defs sample_defs)
  have out: "state (snd (logout all_ok signed_in)) = unauthenticated"
    by (simp add: logout_def effect_defs all_ok_def sample_env_def)
  from stored out
    logout_keeps_persisted_session [of all_ok signed_in "''0xABC''" "''session-1''" all_ok
      "''session-1''" "''metamask''"]
  show ?thesis
    by (simp add: all_ok_def sample_env_def)
qed

section \<open>Invariants\<close>

text \<open>
  C7. After any sequence of transitions (\<open>loginWithCeramic\<close>, \<open>logout\<close>, the effect run
  when the wallet status changes) from the mounted component, with any answers of the
  libraries, any provider and address at each transition and any content of the storage:
  if the state has \<open>isAuthenticated = true\<close> then \<open>user\<close> is present. The same holds of
  every state that was committed on the way, so of every state that was ever visible.
\<close>

theorem authenticated_has_user:
  fixes ts :: "('p, 's) transition list"
  shows "(isAuthenticated (state (run ts (mount store))) \<longrightarrow>
      user (state (run ts (mount store))) \<noteq> None)
   \<and> (\<forall>s \<in> set (commits (trace (run ts (mount store)))).
         isAuthenticated s \<longrightarrow> user s \<noteq> None)"
proof -
  have "\<not> isAuthenticated (initial_state :: 's AuthState)"
    by (simp add: initial_state_def)
  with run_from_mount [of ts store] show ?thesis
    by (auto simp: settled_def)
qed

theorem authenticated_has_user_witness:
  "isAuthenticated (state (run [LoginWithCeramic all_ok (Some ''metamask'') (Some ''0xABC'')]
     (mount Map.empty)))
   \<and> user (state (run [LoginWithCeramic all_ok (Some ''metamask'') (Some ''0xABC'')]
     (mount Map.empty))) \<noteq> None
   \<and> commits (trace (run [LoginWithCeramic all_ok (Some ''metamask'') (Some ''0xABC'')]
     (mount Map.empty))) = [authenticated ''0xABC'' ''session-1'']"
  using authenticated_has_user
    [of "[LoginWithCeramic all_ok (Some ''metamask'') (Some ''0xABC'')]" Map.empty]
  by (simp add: login_defs effect_defs sample_defs authenticated_def)

text \<open>
  C10. Every state committed by a transition has \<open>isLoading = false\<close>; and once the state
  has \<open>isLoading = false\<close>, it has it after any further transitions.
\<close>

theorem isLoading_never_returns:
  fixes ts :: "('p, 's) transition list"
  shows "(\<forall>s \<in> set (commits (trace (run ts (mount store)))). \<not> isLoading s)
   \<and> (\<not> isLoading (state (run ts (mount store))) \<longrightarrow>
        \<not> isLoading (state (run (ts @ ts') (mount store))))"
proof -
  have later: "\<not> isLoading (state (run ts' w))" if "\<not> isLoading (state w)"
    for w :: "('p, 's) world"
    using run_commits_well [of w ts'] that
    by (auto simp: commits_well_def settled_def)
  from run_from_mount [of ts store] later [of "run ts (mount store)"] show ?thesis
    by (auto simp: settled_def run_append)
qed

theorem isLoading_never_returns_witness:
  "commits (trace (run [LoginWithCeramic all_ok None None] (mount Map.empty))) =
     [unauthenticated]
   \<and> \<not> isLoading (unauthenticated :: string AuthState)
   \<and> \<not> isLoading (state (run [LoginWithCeramic all_ok None None] (mount Map.empty)))
   \<and> \<not> isLoading (state (run ([LoginWithCeramic all_ok None None]
          @ [Logout (sample_env (Inr None) (Inr ''session-1'') (Inl (Error ''Failed to fetch'')))])
        (mount Map.empty)))"
  using isLoading_never_returns [of "[LoginWithCeramic all_ok None None]" Map.empty
      "[Logout (sample_env (Inr None) (Inr ''session-1'') (Inl (Error ''Failed to fetch'')))]"]
  by (simp add: login_defs effect_defs sample_defs unauthenticated_def)

end
